theory Spec2Isabelle
  imports Main
begin

section \<open>The Geth namespace classes of web3/geth.py\<close>

text \<open>
  web3/geth.py defines the classes that expose the \<open>personal\<close>, \<open>admin\<close>, \<open>miner\<close> and
  \<open>txpool\<close> JSON-RPC namespaces of a Geth node. Every method body in the file has one of
  two shapes,
  \<^verbatim>\<open>def m(self, p1, ..., pk): return self.t(q1, ..., qj)\<close> and
  \<^verbatim>\<open>async def m(self, p1, ..., pk): return await self.t(q1, ..., qj)\<close>,
  and every other class attribute is an assignment \<^verbatim>\<open>name = imported_name\<close>, the flag
  \<^verbatim>\<open>is_async = True/False\<close>, or an annotation \<^verbatim>\<open>name: Class\<close>.
  The classes are therefore modelled as tables of such members, transcribed line by line,
  and Python's attribute lookup, argument binding, call and \<open>await\<close> are functions over
  these tables.
\<close>

subsection \<open>Values, errors and the dispatcher\<close>

text \<open>
  Python values that cross this layer. Immutable values are carried as they are; a mutable
  object (a transaction dict, a decoded list) is a reference \<open>PRef a\<close> into the store,
  which is part of the state \<open>'w\<close> of everything outside this file.
\<close>

datatype pyval = PNone | PBool bool | PInt int | PStr string | PRef nat

text \<open>
  Exceptions: those Python itself raises when a call does not fit (\<open>TypeError\<close>: wrong
  number of arguments, calling or awaiting something that is not callable or awaitable;
  \<open>AttributeError\<close>, \<open>NameError\<close>: failed lookups), and \<open>Raised e\<close>, an error \<open>e\<close>
  raised by the dispatcher.
\<close>

datatype 'e exn = TypeError | AttributeError | NameError | Raised 'e

text \<open>
  The call dispatcher is the external collaborator: given a JSON-RPC method string and the
  ordered parameters it performs the round trip in the state \<open>'w\<close> and returns the decoded
  result or raises \<open>e\<close>.
\<close>

type_synonym ('e, 'w) dispatcher = "string \<Rightarrow> pyval list \<Rightarrow> 'w \<Rightarrow> ('e + pyval) \<times> 'w"

text \<open>
  What a call expression evaluates to: a plain value, or a coroutine object that runs only
  when it is awaited.
\<close>

datatype ('e, 'w) pyobj = Plain pyval | Coroutine "'w \<Rightarrow> ('e exn + pyval) \<times> 'w"

type_synonym ('e, 'w) outcome = "('e exn + ('e, 'w) pyobj) \<times> 'w"

fun await :: "('e, 'w) outcome \<Rightarrow> ('e exn + pyval) \<times> 'w" where
  "await (Inl e, w) = (Inl e, w)"
| "await (Inr (Coroutine k), w) = k w"
| "await (Inr (Plain v), w) = (Inl TypeError, w)"

subsection \<open>Module-level imports (lines 19 to 75)\<close>

datatype utils = Admin | Miner | Personal | Txpool

definition imported :: "(string \<times> utils) list" where
  "imported =
    [(''add_peer'', Admin), (''addPeer'', Admin), (''datadir'', Admin),
     (''node_info'', Admin), (''nodeInfo'', Admin), (''peers'', Admin),
     (''start_rpc'', Admin), (''start_ws'', Admin), (''startRPC'', Admin),
     (''startWS'', Admin), (''stop_rpc'', Admin), (''stop_ws'', Admin),
     (''stopRPC'', Admin), (''stopWS'', Admin),
     (''make_dag'', Miner), (''makeDag'', Miner), (''set_etherbase'', Miner),
     (''set_extra'', Miner), (''set_gas_price'', Miner), (''setEtherbase'', Miner),
     (''setExtra'', Miner), (''setGasPrice'', Miner), (''start'', Miner),
     (''start_auto_dag'', Miner), (''startAutoDag'', Miner), (''stop'', Miner),
     (''stop_auto_dag'', Miner), (''stopAutoDag'', Miner),
     (''ec_recover'', Personal), (''ecRecover'', Personal), (''import_raw_key'', Personal),
     (''importRawKey'', Personal), (''list_accounts'', Personal),
     (''list_wallets'', Personal), (''listAccounts'', Personal),
     (''lock_account'', Personal), (''lockAccount'', Personal),
     (''new_account'', Personal), (''newAccount'', Personal),
     (''send_transaction'', Personal), (''sendTransaction'', Personal),
     (''sign'', Personal), (''sign_typed_data'', Personal), (''signTypedData'', Personal),
     (''unlock_account'', Personal), (''unlockAccount'', Personal),
     (''content'', Txpool), (''inspect'', Txpool), (''status'', Txpool)]"

subsection \<open>Naming conventions\<close>

text \<open>
  Two names denote the same operation when they agree up to underscores and letter case:
  \<open>start_rpc\<close> and \<open>startRPC\<close>, \<open>ec_recover\<close> and \<open>ecRecover\<close>. A camelCase name has no
  underscore; a single word such as \<open>sign\<close> is its own camelCase form.
\<close>

text \<open>
  Lower-casing of an ASCII character, on its bits (least significant first): the upper-case
  letters are the codes 65 to 90, that is, bits 7 to 5 are 010 and the low five bits are
  between 1 and 26; the lower-case letter has bit 5 set in addition.
\<close>

fun lower :: "char \<Rightarrow> char" where
  "lower (Char b0 b1 b2 b3 b4 b5 b6 b7) =
     (if \<not> b7 \<and> b6 \<and> \<not> b5 \<and> (b0 \<or> b1 \<or> b2 \<or> b3 \<or> b4) \<and> \<not> (b4 \<and> b3 \<and> (b2 \<or> (b1 \<and> b0)))
      then Char b0 b1 b2 b3 b4 True b6 b7
      else Char b0 b1 b2 b3 b4 b5 b6 b7)"

definition norm_name :: "string \<Rightarrow> string" where
  "norm_name s = map lower (filter (\<lambda>ch. ch \<noteq> CHR ''_'') s)"

definition is_camel :: "string \<Rightarrow> bool" where
  "is_camel s = (CHR ''_'' \<notin> set s)"

subsection \<open>The objects of web3/_utils\<close>

text \<open>
  Modelled from the spec: the modules web3/_utils/admin.py, miner.py, personal.py and
  txpool.py, whose objects geth.py imports and binds as class attributes, are not among
  the sources. The spec (section 6) lists the operations of each namespace under their
  camelCase names and maps each to the JSON-RPC method string \<open>namespace_name\<close>; by
  section 4.5 a snake_case name denotes the same implementation as its camelCase form.
\<close>

definition documented_ops :: "utils \<Rightarrow> string list" where
  "documented_ops u = (case u of
      Personal \<Rightarrow> [''ecRecover'', ''importRawKey'', ''listAccounts'', ''listWallets'',
                   ''lockAccount'', ''newAccount'', ''sendTransaction'', ''sign'',
                   ''signTypedData'', ''unlockAccount'']
    | Admin \<Rightarrow> [''addPeer'', ''nodeInfo'', ''peers'', ''datadir'', ''startRPC'', ''startWS'',
                ''stopRPC'', ''stopWS'']
    | Miner \<Rightarrow> [''makeDag'', ''setExtra'', ''setEtherbase'', ''setGasPrice'', ''start'',
                ''stop'', ''startAutoDag'', ''stopAutoDag'']
    | Txpool \<Rightarrow> [''content'', ''inspect'', ''status''])"

definition rpc_prefix :: "utils \<Rightarrow> string" where
  "rpc_prefix u = (case u of Personal \<Rightarrow> ''personal'' | Admin \<Rightarrow> ''admin''
                   | Miner \<Rightarrow> ''miner'' | Txpool \<Rightarrow> ''txpool'')"

definition json_rpc_method :: "utils \<Rightarrow> string \<Rightarrow> string option" where
  "json_rpc_method u n =
     (case find (\<lambda>c. norm_name c = norm_name n) (documented_ops u) of
        None \<Rightarrow> None
      | Some c \<Rightarrow> Some (rpc_prefix u @ ''_'' @ c))"

text \<open>
  The object a module-level name of geth.py denotes, identified by the JSON-RPC method it
  requests; \<open>None\<close> when the name is not imported.
\<close>

definition global :: "string \<Rightarrow> string option" where
  "global g = (case map_of imported g of None \<Rightarrow> None | Some u \<Rightarrow> json_rpc_method u g)"

subsection \<open>The classes (lines 88 to 305)\<close>

datatype cls =
    Module | BaseGethPersonal | GethPersonal | AsyncGethPersonal
  | BaseTxPool | GethTxPool | AsyncGethTxPool | GethAdmin | GethMiner | Geth

text \<open>
  A class member: \<open>Attr g\<close> is the assignment \<^verbatim>\<open>name = g\<close> of a module-level object,
  \<open>Flag b\<close> is \<^verbatim>\<open>is_async = b\<close>, and \<open>Def a ps t qs\<close> is the method
  \<^verbatim>\<open>def name(self, ps): return self.t(qs)\<close> when \<open>a\<close> is false and
  \<^verbatim>\<open>async def name(self, ps): return await self.t(qs)\<close> when it is true. A parameter
  is its name with its default value, if it declares one.
\<close>

datatype member =
    Attr string
  | Flag bool
  | Def bool "(string \<times> pyval option) list" string "string list"

abbreviation req :: "string \<Rightarrow> string \<times> pyval option" where
  "req p \<equiv> (p, None)"

abbreviation dflt :: "string \<Rightarrow> pyval \<Rightarrow> string \<times> pyval option" where
  "dflt p v \<equiv> (p, Some v)"

text \<open>
  Modelled from the spec: the base class \<open>Module\<close> of web3/module.py is not among the
  sources. A namespace that declares no \<open>is_async\<close> of its own (Admin, Miner) is
  synchronous (spec, sections 4.2 and 4.3), so \<open>Module\<close> supplies \<^verbatim>\<open>is_async = False\<close>.
\<close>

definition Module_body :: "(string \<times> member) list" where
  "Module_body = [(''is_async'', Flag False)]"

definition BaseGethPersonal_body :: "(string \<times> member) list" where
  "BaseGethPersonal_body =
    [(''_ec_recover'', Attr ''ec_recover''),
     (''_import_raw_key'', Attr ''import_raw_key''),
     (''_list_accounts'', Attr ''list_accounts''),
     (''_list_wallets'', Attr ''list_wallets''),
     (''_lock_account'', Attr ''lock_account''),
     (''_new_account'', Attr ''new_account''),
     (''_send_transaction'', Attr ''send_transaction''),
     (''_sign'', Attr ''sign''),
     (''_sign_typed_data'', Attr ''sign_typed_data''),
     (''_unlock_account'', Attr ''unlock_account''),
     (''_ecRecover'', Attr ''ecRecover''),
     (''_importRawKey'', Attr ''importRawKey''),
     (''_listAccounts'', Attr ''listAccounts''),
     (''_lockAccount'', Attr ''lockAccount''),
     (''_newAccount'', Attr ''newAccount''),
     (''_sendTransaction'', Attr ''sendTransaction''),
     (''_signTypedData'', Attr ''signTypedData''),
     (''_unlockAccount'', Attr ''unlockAccount'')]"

definition GethPersonal_body :: "(string \<times> member) list" where
  "GethPersonal_body =
    [(''is_async'', Flag False),
     (''ec_recover'', Def False [req ''message'', req ''signature'']
        ''_ec_recover'' [''message'', ''signature'']),
     (''import_raw_key'', Def False [req ''private_key'', req ''passphrase'']
        ''_import_raw_key'' [''private_key'', ''passphrase'']),
     (''list_accounts'', Def False [] ''_list_accounts'' []),
     (''list_wallets'', Def False [] ''_list_wallets'' []),
     (''lock_account'', Def False [req ''account''] ''_lock_account'' [''account'']),
     (''new_account'', Def False [req ''passphrase''] ''_new_account'' [''passphrase'']),
     (''send_transaction'', Def False [req ''transaction'', req ''passphrase'']
        ''_send_transaction'' [''transaction'', ''passphrase'']),
     (''sign'', Def False [req ''message'', req ''account'', req ''password'']
        ''_sign'' [''message'', ''account'', ''password'']),
     (''sign_typed_data'', Def False [req ''message'', req ''account'', req ''password'']
        ''_sign_typed_data'' [''message'', ''account'', ''password'']),
     (''unlock_account'', Def False [req ''account'', req ''passphrase'', dflt ''duration'' PNone]
        ''_unlock_account'' [''account'', ''passphrase'', ''duration'']),
     (''ecRecover'', Def False [req ''message'', req ''signature'']
        ''_ecRecover'' [''message'', ''signature'']),
     (''importRawKey'', Def False [req ''private_key'', req ''passphrase'']
        ''_importRawKey'' [''private_key'', ''passphrase'']),
     (''listAccounts'', Def False [] ''_listAccounts'' []),
     (''lockAccount'', Def False [req ''account''] ''_lockAccount'' [''account'']),
     (''newAccount'', Def False [req ''passphrase''] ''_newAccount'' [''passphrase'']),
     (''sendTransaction'', Def False [req ''transaction'', req ''passphrase'']
        ''_sendTransaction'' [''transaction'', ''passphrase'']),
     (''signTypedData'', Def False [req ''message'', req ''account'', dflt ''password'' PNone]
        ''_signTypedData'' [''message'', ''account'', ''password'']),
     (''unlockAccount'', Def False [req ''account'', req ''passphrase'', dflt ''duration'' PNone]
        ''_unlockAccount'' [''account'', ''passphrase'', ''duration''])]"

definition AsyncGethPersonal_body :: "(string \<times> member) list" where
  "AsyncGethPersonal_body =
    [(''is_async'', Flag True),
     (''ec_recover'', Def True [req ''message'', req ''signature'']
        ''_ec_recover'' [''message'', ''signature'']),
     (''import_raw_key'', Def True [req ''private_key'', req ''passphrase'']
        ''_import_raw_key'' [''private_key'', ''passphrase'']),
     (''list_accounts'', Def True [] ''_list_accounts'' []),
     (''list_wallets'', Def True [] ''_list_wallets'' []),
     (''lock_account'', Def True [req ''account''] ''_lock_account'' [''account'']),
     (''new_account'', Def True [req ''passphrase''] ''_new_account'' [''passphrase'']),
     (''send_transaction'', Def True [req ''transaction'', req ''passphrase'']
        ''_send_transaction'' [''transaction'', ''passphrase'']),
     (''sign'', Def True [req ''message'', req ''account'', req ''password'']
        ''_sign'' [''message'', ''account'', ''password'']),
     (''sign_typed_data'', Def True [req ''message'', req ''account'', req ''password'']
        ''_sign_typed_data'' [''message'', ''account'', ''password'']),
     (''unlock_account'', Def True [req ''account'', req ''passphrase'', dflt ''duration'' PNone]
        ''_unlock_account'' [''account'', ''passphrase'', ''duration''])]"

definition BaseTxPool_body :: "(string \<times> member) list" where
  "BaseTxPool_body =
    [(''_content'', Attr ''content''),
     (''_inspect'', Attr ''inspect''),
     (''_status'', Attr ''status'')]"

definition GethTxPool_body :: "(string \<times> member) list" where
  "GethTxPool_body =
    [(''is_async'', Flag False),
     (''content'', Def False [] ''_content'' []),
     (''inspect'', Def False [] ''_inspect'' []),
     (''status'', Def False [] ''_status'' [])]"

definition AsyncGethTxPool_body :: "(string \<times> member) list" where
  "AsyncGethTxPool_body =
    [(''is_async'', Flag True),
     (''content'', Def True [] ''_content'' []),
     (''inspect'', Def True [] ''_inspect'' []),
     (''status'', Def True [] ''_status'' [])]"

definition GethAdmin_body :: "(string \<times> member) list" where
  "GethAdmin_body =
    [(''add_peer'', Attr ''add_peer''),
     (''node_info'', Attr ''node_info''),
     (''start_rpc'', Attr ''start_rpc''),
     (''start_ws'', Attr ''start_ws''),
     (''stop_ws'', Attr ''stop_ws''),
     (''stop_rpc'', Attr ''stop_rpc''),
     (''addPeer'', Attr ''addPeer''),
     (''datadir'', Attr ''datadir''),
     (''nodeInfo'', Attr ''nodeInfo''),
     (''peers'', Attr ''peers''),
     (''startRPC'', Attr ''startRPC''),
     (''startWS'', Attr ''startWS''),
     (''stopRPC'', Attr ''stopRPC''),
     (''stopWS'', Attr ''stopWS'')]"

definition GethMiner_body :: "(string \<times> member) list" where
  "GethMiner_body =
    [(''make_dag'', Attr ''make_dag''),
     (''set_extra'', Attr ''set_extra''),
     (''set_etherbase'', Attr ''set_etherbase''),
     (''set_gas_price'', Attr ''set_gas_price''),
     (''start'', Attr ''start''),
     (''stop'', Attr ''stop''),
     (''start_auto_dag'', Attr ''start_auto_dag''),
     (''stop_auto_dag'', Attr ''stop_auto_dag''),
     (''makeDag'', Attr ''makeDag''),
     (''setExtra'', Attr ''setExtra''),
     (''setEtherbase'', Attr ''setEtherbase''),
     (''setGasPrice'', Attr ''setGasPrice''),
     (''startAutoDag'', Attr ''startAutoDag''),
     (''stopAutoDag'', Attr ''stopAutoDag'')]"

fun body :: "cls \<Rightarrow> (string \<times> member) list" where
  "body Module = Module_body"
| "body BaseGethPersonal = BaseGethPersonal_body"
| "body GethPersonal = GethPersonal_body"
| "body AsyncGethPersonal = AsyncGethPersonal_body"
| "body BaseTxPool = BaseTxPool_body"
| "body GethTxPool = GethTxPool_body"
| "body AsyncGethTxPool = AsyncGethTxPool_body"
| "body GethAdmin = GethAdmin_body"
| "body GethMiner = GethMiner_body"
| "body Geth = []"

text \<open>The annotations of a class body: \<^verbatim>\<open>name: Class\<close>, declared without a value.\<close>

fun annotations :: "cls \<Rightarrow> (string \<times> cls) list" where
  "annotations Geth = [(''personal'', GethPersonal), (''admin'', GethAdmin)]"
| "annotations c = []"

text \<open>The method resolution order, from the class headers.\<close>

fun mro :: "cls \<Rightarrow> cls list" where
  "mro Module = [Module]"
| "mro BaseGethPersonal = [BaseGethPersonal, Module]"
| "mro GethPersonal = [GethPersonal, BaseGethPersonal, Module]"
| "mro AsyncGethPersonal = [AsyncGethPersonal, BaseGethPersonal, Module]"
| "mro BaseTxPool = [BaseTxPool, Module]"
| "mro GethTxPool = [GethTxPool, BaseTxPool, Module]"
| "mro AsyncGethTxPool = [AsyncGethTxPool, BaseTxPool, Module]"
| "mro GethAdmin = [GethAdmin, Module]"
| "mro GethMiner = [GethMiner, Module]"
| "mro Geth = [Geth, Module]"

text \<open>The namespace a class serves (its docstring's link, its name).\<close>

fun namespace :: "cls \<Rightarrow> utils option" where
  "namespace BaseGethPersonal = Some Personal"
| "namespace GethPersonal = Some Personal"
| "namespace AsyncGethPersonal = Some Personal"
| "namespace BaseTxPool = Some Txpool"
| "namespace GethTxPool = Some Txpool"
| "namespace AsyncGethTxPool = Some Txpool"
| "namespace GethAdmin = Some Admin"
| "namespace GethMiner = Some Miner"
| "namespace c = None"

subsection \<open>Attribute lookup, argument binding and calls\<close>

text \<open>
  Attribute lookup on an instance: the first class of the method resolution order whose
  body binds the name; within one body the last binding of a name wins.
\<close>

fun lookup_in :: "cls list \<Rightarrow> string \<Rightarrow> member option" where
  "lookup_in [] n = None"
| "lookup_in (c # cs) n =
     (case map_of (rev (body c)) n of Some m \<Rightarrow> Some m | None \<Rightarrow> lookup_in cs n)"

definition lookup :: "cls \<Rightarrow> string \<Rightarrow> member option" where
  "lookup c n = lookup_in (mro c) n"

definition class_is_async :: "cls \<Rightarrow> bool" where
  "class_is_async c = (case lookup c ''is_async'' of Some (Flag b) \<Rightarrow> b | _ \<Rightarrow> False)"

text \<open>
  Binding positional arguments to the parameters after \<open>self\<close>: arguments fill the
  parameters from the left, a parameter left over takes its default, and the call is
  rejected (\<open>None\<close>, Python's \<open>TypeError\<close>) when there are too many arguments or a
  parameter without default is left over.
\<close>

fun bind :: "(string \<times> pyval option) list \<Rightarrow> pyval list \<Rightarrow> (string \<times> pyval) list option" where
  "bind [] [] = Some []"
| "bind [] (a # as) = None"
| "bind ((p, d) # ps) [] =
     (case d of None \<Rightarrow> None | Some v \<Rightarrow> map_option ((#) (p, v)) (bind ps []))"
| "bind ((p, d) # ps) (a # as) = map_option ((#) (p, a)) (bind ps as)"

text \<open>The values of the names passed on, in the order written.\<close>

fun eval_names :: "(string \<times> pyval) list \<Rightarrow> string list \<Rightarrow> pyval list option" where
  "eval_names env [] = Some []"
| "eval_names env (q # qs) =
     (case map_of env q of
        None \<Rightarrow> None
      | Some v \<Rightarrow> map_option ((#) v) (eval_names env qs))"

text \<open>One request to the dispatcher; its error, if any, is raised as it is.\<close>

definition request :: "('e, 'w) dispatcher \<Rightarrow> string \<Rightarrow> pyval list \<Rightarrow> 'w \<Rightarrow> ('e exn + pyval) \<times> 'w" where
  "request d m ps w = (case d m ps w of (r, w') \<Rightarrow> (map_sum Raised id r, w'))"

text \<open>
  Modelled from the spec: calling an object of web3/_utils through an instance of class
  \<open>c\<close> (the descriptor protocol of web3/method.py, not among the sources). By the spec
  (sections 2, 5 and 6) the call passes the method string and the arguments, in order and
  unmodified, to the dispatcher; in blocking mode the call returns the decoded result, in
  non-blocking mode it returns an awaitable that makes the request when awaited. The mode
  is that of the instance's class.
\<close>

definition method_call ::
  "cls \<Rightarrow> string \<Rightarrow> pyval list \<Rightarrow> ('e, 'w) dispatcher \<Rightarrow> 'w \<Rightarrow> ('e, 'w) outcome" where
  "method_call c g args d w =
     (case global g of
        None \<Rightarrow> (Inl NameError, w)
      | Some m \<Rightarrow>
          if class_is_async c then (Inr (Coroutine (request d m args)), w)
          else (case request d m args w of (r, w') \<Rightarrow> (map_sum id Plain r, w')))"

text \<open>
  The expression \<^verbatim>\<open>self.t(qs)\<close> in the environment \<open>env\<close> of a method body. In this file
  every \<open>self.t\<close> is a class attribute bound to an imported object.
\<close>

definition call_target ::
  "cls \<Rightarrow> (string \<times> pyval) list \<Rightarrow> string \<Rightarrow> string list \<Rightarrow> ('e, 'w) dispatcher \<Rightarrow> 'w
     \<Rightarrow> ('e, 'w) outcome" where
  "call_target c env t qs d w =
     (case lookup c t of
        Some (Attr g) \<Rightarrow>
          (case eval_names env qs of
             None \<Rightarrow> (Inl NameError, w)
           | Some vs \<Rightarrow> method_call c g vs d w)
      | Some (Flag b) \<Rightarrow> (Inl TypeError, w)
      | _ \<Rightarrow> (Inl AttributeError, w))"

text \<open>
  The call \<^verbatim>\<open>obj.n(*args)\<close> on an instance \<open>obj\<close> of class \<open>c\<close>, with positional
  arguments (calls by keyword are not modelled). A \<open>def\<close> runs its body; an
  \<open>async def\<close> binds its arguments and returns a coroutine whose body runs, and awaits
  the inner call, once the coroutine is awaited.
\<close>

definition call ::
  "cls \<Rightarrow> string \<Rightarrow> pyval list \<Rightarrow> ('e, 'w) dispatcher \<Rightarrow> 'w \<Rightarrow> ('e, 'w) outcome" where
  "call c n args d w =
     (case lookup c n of
        None \<Rightarrow> (Inl AttributeError, w)
      | Some (Flag b) \<Rightarrow> (Inl TypeError, w)
      | Some (Attr g) \<Rightarrow> method_call c g args d w
      | Some (Def a ps t qs) \<Rightarrow>
          (case bind ps args of
             None \<Rightarrow> (Inl TypeError, w)
           | Some env \<Rightarrow>
               if a then (Inr (Coroutine (\<lambda>w'. await (call_target c env t qs d w'))), w)
               else call_target c env t qs d w))"

text \<open>
  What the caller ends up with: the value returned by a blocking call, or, on a
  non-blocking class, the value the awaited call resolves to.
\<close>

definition perform ::
  "cls \<Rightarrow> string \<Rightarrow> pyval list \<Rightarrow> ('e, 'w) dispatcher \<Rightarrow> 'w \<Rightarrow> ('e, 'w) outcome" where
  "perform c n args d w =
     (if class_is_async c
      then (case await (call c n args d w) of (r, w') \<Rightarrow> (map_sum id Plain r, w'))
      else call c n args d w)"

subsection \<open>The exposed operations of a class\<close>

text \<open>
  The names an instance exposes as operations: the public names (no leading underscore)
  bound along the method resolution order to something callable.
\<close>

definition is_public :: "string \<Rightarrow> bool" where
  "is_public n = (n \<noteq> [] \<and> hd n \<noteq> CHR ''_'')"

definition callable :: "cls \<Rightarrow> string \<Rightarrow> bool" where
  "callable c n = (case lookup c n of Some (Attr g) \<Rightarrow> True
                   | Some (Def a ps t qs) \<Rightarrow> True | _ \<Rightarrow> False)"

definition operations :: "cls \<Rightarrow> string list" where
  "operations c =
     remdups (filter (\<lambda>n. is_public n \<and> callable c n) (map fst (concat (map body (mro c)))))"

subsection \<open>Notions used to state the properties\<close>

text \<open>
  The JSON-RPC method string the spec documents for the operation \<open>n\<close> of class \<open>c\<close>:
  that of the class's namespace and of the name's camelCase form.
\<close>

definition documented :: "cls \<Rightarrow> string \<Rightarrow> string option" where
  "documented c n = (case namespace c of None \<Rightarrow> None | Some u \<Rightarrow> json_rpc_method u n)"

text \<open>
  A mocked dispatcher that behaves as \<open>d\<close> and appends every call it receives, method
  string and parameters, to a log kept beside the state.
\<close>

definition recording ::
  "('e, 'w) dispatcher \<Rightarrow> ('e, (string \<times> pyval list) list \<times> 'w) dispatcher" where
  "recording d m ps lw =
     (case lw of (log, w) \<Rightarrow> (case d m ps w of (r, w') \<Rightarrow> (r, (log @ [(m, ps)], w'))))"

text \<open>The dispatcher calls issued by performing the operation, in order.\<close>

definition dispatched ::
  "cls \<Rightarrow> string \<Rightarrow> pyval list \<Rightarrow> ('e, 'w) dispatcher \<Rightarrow> 'w \<Rightarrow> (string \<times> pyval list) list" where
  "dispatched c n args d w = fst (snd (perform c n args (recording d) ([], w)))"

text \<open>
  The outcome of one dispatcher call handed to the caller as it is: the decoded value
  returned, the error raised, the state as the dispatcher left it.
\<close>

definition relay :: "('e, 'w) dispatcher \<Rightarrow> string \<Rightarrow> pyval list \<Rightarrow> 'w \<Rightarrow> ('e, 'w) outcome" where
  "relay d m ps w = (case d m ps w of (r, w') \<Rightarrow> (map_sum Raised Plain r, w'))"

text \<open>
  The declared parameters of an operation written as a method (\<open>None\<close> for a bound object
  of web3/_utils, which takes whatever it is given), whether it accepts a list of
  positional arguments, and the \<open>None\<close> defaults of the trailing parameters a call omits.
\<close>

definition params_of :: "cls \<Rightarrow> string \<Rightarrow> (string \<times> pyval option) list option" where
  "params_of c n = (case lookup c n of Some (Def a ps t qs) \<Rightarrow> Some ps | _ \<Rightarrow> None)"

definition accepts :: "cls \<Rightarrow> string \<Rightarrow> pyval list \<Rightarrow> bool" where
  "accepts c n args = (case params_of c n of Some ps \<Rightarrow> bind ps args \<noteq> None | None \<Rightarrow> True)"

definition padding :: "cls \<Rightarrow> string \<Rightarrow> pyval list \<Rightarrow> pyval list" where
  "padding c n args =
     (case params_of c n of
        Some ps \<Rightarrow> replicate (length ps - length args) PNone
      | None \<Rightarrow> [])"

text \<open>
  The object of web3/_utils an operation ends in (directly, or through the private
  attribute its body calls), given by the imported name, and the JSON-RPC method that
  object requests.
\<close>

definition bound_to :: "cls \<Rightarrow> string \<Rightarrow> string option" where
  "bound_to c n =
     (case lookup c n of
        Some (Attr g) \<Rightarrow> Some g
      | Some (Def a ps t qs) \<Rightarrow> (case lookup c t of Some (Attr g) \<Rightarrow> Some g | _ \<Rightarrow> None)
      | _ \<Rightarrow> None)"

definition rpc_of :: "cls \<Rightarrow> string \<Rightarrow> string option" where
  "rpc_of c n = (case bound_to c n of None \<Rightarrow> None | Some g \<Rightarrow> global g)"

definition origin :: "cls \<Rightarrow> string \<Rightarrow> utils option" where
  "origin c n = (case bound_to c n of None \<Rightarrow> None | Some g \<Rightarrow> map_of imported g)"

text \<open>Whether the operation is written with \<open>async def\<close>.\<close>

definition is_async_def :: "cls \<Rightarrow> string \<Rightarrow> bool" where
  "is_async_def c n = (case lookup c n of Some (Def a ps t qs) \<Rightarrow> a | _ \<Rightarrow> False)"

text \<open>
  \<open>a\<close> is a deprecated camelCase alias of the snake_case operation \<open>n\<close> of the same class;
  and: the class exposes some camelCase name for the operation \<open>n\<close>.
\<close>

definition alias_of :: "cls \<Rightarrow> string \<Rightarrow> string \<Rightarrow> bool" where
  "alias_of c a n =
     (a \<in> set (operations c) \<and> n \<in> set (operations c) \<and>
      is_camel a \<and> \<not> is_camel n \<and> norm_name a = norm_name n)"

definition has_camel_alias :: "cls \<Rightarrow> string \<Rightarrow> bool" where
  "has_camel_alias c n =
     list_ex (\<lambda>a. is_camel a \<and> norm_name a = norm_name n) (operations c)"

text \<open>A dispatcher for concrete runs: it answers every request with \<open>True\<close>.\<close>

definition always_true :: "(unit, unit) dispatcher" where
  "always_true m ps w = (Inr (PBool True), w)"

text \<open>
  What the body of a method written in this file forwards: the private attribute it calls
  and the argument values it passes, in order; \<open>None\<close> when the call is rejected or the
  name is not such a method.
\<close>

definition forwarded :: "cls \<Rightarrow> string \<Rightarrow> pyval list \<Rightarrow> (string \<times> pyval list) option" where
  "forwarded c n args =
     (case lookup c n of
        Some (Def a ps t qs) \<Rightarrow>
          (case bind ps args of
             None \<Rightarrow> None
           | Some env \<Rightarrow> map_option (Pair t) (eval_names env qs))
      | _ \<Rightarrow> None)"

text \<open>The alias pairs of a class, enumerated.\<close>

definition alias_pairs :: "cls \<Rightarrow> (string \<times> string) list" where
  "alias_pairs c =
     [(a, n). a \<leftarrow> filter is_camel (operations c),
              n \<leftarrow> filter (\<lambda>n. \<not> is_camel n) (operations c),
              norm_name a = norm_name n]"

text \<open>
  Consistency of one operation of a class with the rest of the file: a bound object is
  imported from the module of the class's namespace and requests the documented method; a
  method is \<open>async\<close> exactly on a non-blocking class, passes its parameters on in the
  order declared, declares no default other than \<open>None\<close>, and calls a private attribute
  that is such a bound object.
\<close>

definition none_default :: "string \<times> pyval option \<Rightarrow> bool" where
  "none_default p = (snd p = None \<or> snd p = Some PNone)"

definition wired :: "cls \<Rightarrow> string \<Rightarrow> bool" where
  "wired c n =
     (case lookup c n of
        Some (Attr g) \<Rightarrow>
          \<not> class_is_async c \<and> map_of imported g = namespace c \<and>
          documented c n \<noteq> None \<and> global g = documented c n
      | Some (Def a ps t qs) \<Rightarrow>
          a = class_is_async c \<and> qs = map fst ps \<and> distinct qs \<and> list_all none_default ps \<and>
          (case lookup c t of
             Some (Attr g) \<Rightarrow>
               map_of imported g = namespace c \<and>
               documented c n \<noteq> None \<and> global g = documented c n
           | _ \<Rightarrow> False)
      | _ \<Rightarrow> False)"





section \<open>Properties\<close>

subsection \<open>Evaluating the class tables\<close>

text \<open>
  The facts of this subsection are computed from the tables: the operations of each class,
  the alias pairs, the signatures compared, the consistency check \<open>wired\<close> on every
  operation.
\<close>

lemma lower_letters:
  "map lower ''ABCDEFGHIJKLMNOPQRSTUVWXYZ'' = ''abcdefghijklmnopqrstuvwxyz''"
  "map lower ''abcdefghijklmnopqrstuvwxyz_0123456789@[`{'' =
     ''abcdefghijklmnopqrstuvwxyz_0123456789@[`{''"
  by simp_all

lemma operations_Module: "operations Module = []"
  by code_simp

lemma operations_BaseGethPersonal: "operations BaseGethPersonal = []"
  by code_simp

lemma operations_GethPersonal:
  "operations GethPersonal =
     [''ec_recover'', ''import_raw_key'', ''list_accounts'', ''list_wallets'',
      ''lock_account'', ''new_account'', ''send_transaction'', ''sign'',
      ''sign_typed_data'', ''unlock_account'', ''ecRecover'', ''importRawKey'',
      ''listAccounts'', ''lockAccount'', ''newAccount'', ''sendTransaction'',
      ''signTypedData'', ''unlockAccount'']"
  by code_simp

lemma operations_AsyncGethPersonal:
  "operations AsyncGethPersonal =
     [''ec_recover'', ''import_raw_key'', ''list_accounts'', ''list_wallets'',
      ''lock_account'', ''new_account'', ''send_transaction'', ''sign'',
      ''sign_typed_data'', ''unlock_account'']"
  by code_simp

lemma operations_BaseTxPool: "operations BaseTxPool = []"
  by code_simp

lemma operations_GethTxPool: "operations GethTxPool = [''content'', ''inspect'', ''status'']"
  by code_simp

lemma operations_AsyncGethTxPool:
  "operations AsyncGethTxPool = [''content'', ''inspect'', ''status'']"
  by code_simp

lemma operations_GethAdmin:
  "operations GethAdmin =
     [''add_peer'', ''node_info'', ''start_rpc'', ''start_ws'', ''stop_ws'', ''stop_rpc'',
      ''addPeer'', ''datadir'', ''nodeInfo'', ''peers'', ''startRPC'', ''startWS'',
      ''stopRPC'', ''stopWS'']"
  by code_simp

lemma operations_GethMiner:
  "operations GethMiner =
     [''make_dag'', ''set_extra'', ''set_etherbase'', ''set_gas_price'', ''start'', ''stop'',
      ''start_auto_dag'', ''stop_auto_dag'', ''makeDag'', ''setExtra'', ''setEtherbase'',
      ''setGasPrice'', ''startAutoDag'', ''stopAutoDag'']"
  by code_simp

lemma operations_Geth: "operations Geth = []"
  by code_simp

lemma wired_GethPersonal: "list_all (wired GethPersonal) (operations GethPersonal)"
  unfolding operations_GethPersonal by code_simp

lemma wired_AsyncGethPersonal: "list_all (wired AsyncGethPersonal) (operations AsyncGethPersonal)"
  unfolding operations_AsyncGethPersonal by code_simp

lemma wired_GethTxPool: "list_all (wired GethTxPool) (operations GethTxPool)"
  unfolding operations_GethTxPool by code_simp

lemma wired_AsyncGethTxPool: "list_all (wired AsyncGethTxPool) (operations AsyncGethTxPool)"
  unfolding operations_AsyncGethTxPool by code_simp

lemma wired_GethAdmin: "list_all (wired GethAdmin) (operations GethAdmin)"
  unfolding operations_GethAdmin by code_simp

lemma wired_GethMiner: "list_all (wired GethMiner) (operations GethMiner)"
  unfolding operations_GethMiner by code_simp






lemma alias_pairs_GethMiner:
  "alias_pairs GethMiner =
     [(''makeDag'', ''make_dag''), (''setExtra'', ''set_extra''),
      (''setEtherbase'', ''set_etherbase''), (''setGasPrice'', ''set_gas_price''),
      (''startAutoDag'', ''start_auto_dag''), (''stopAutoDag'', ''stop_auto_dag'')]"
  unfolding alias_pairs_def operations_GethMiner by code_simp





lemma params_signTypedData:
  "params_of GethPersonal ''signTypedData'' =
     Some [req ''message'', req ''account'', dflt ''password'' PNone]"
  by code_simp

lemma params_sign_typed_data:
  "params_of GethPersonal ''sign_typed_data'' =
     Some [req ''message'', req ''account'', req ''password'']"
  by code_simp

lemma class_is_async_conj:
  "\<not> class_is_async GethPersonal \<and> class_is_async AsyncGethPersonal \<and>
   \<not> class_is_async GethTxPool \<and> class_is_async AsyncGethTxPool \<and>
   \<not> class_is_async GethAdmin \<and> \<not> class_is_async GethMiner"
  by code_simp

lemma class_is_async_values:
  "\<not> class_is_async GethPersonal" "class_is_async AsyncGethPersonal"
  "\<not> class_is_async GethTxPool" "class_is_async AsyncGethTxPool"
  "\<not> class_is_async GethAdmin" "\<not> class_is_async GethMiner"
  using class_is_async_conj by simp_all

lemma no_camel_GethPersonal:
  "filter (\<lambda>n. \<not> has_camel_alias GethPersonal n) (operations GethPersonal) = [''list_wallets'']"
  unfolding has_camel_alias_def operations_GethPersonal by code_simp

lemma camel_AsyncGethPersonal:
  "filter (has_camel_alias AsyncGethPersonal) (operations AsyncGethPersonal) = [''sign'']"
  unfolding has_camel_alias_def operations_AsyncGethPersonal by code_simp

lemma no_camel_GethTxPool:
  "filter (\<lambda>n. \<not> has_camel_alias GethTxPool n) (operations GethTxPool) = []"
  unfolding has_camel_alias_def operations_GethTxPool by code_simp

lemma no_camel_AsyncGethTxPool:
  "filter (\<lambda>n. \<not> has_camel_alias AsyncGethTxPool n) (operations AsyncGethTxPool) = []"
  unfolding has_camel_alias_def operations_AsyncGethTxPool by code_simp

lemma no_camel_GethAdmin:
  "filter (\<lambda>n. \<not> has_camel_alias GethAdmin n) (operations GethAdmin) = []"
  unfolding has_camel_alias_def operations_GethAdmin by code_simp

lemma no_camel_GethMiner:
  "filter (\<lambda>n. \<not> has_camel_alias GethMiner n) (operations GethMiner) = []"
  unfolding has_camel_alias_def operations_GethMiner by code_simp

lemma sync_async_params_Personal:
  "list_all (\<lambda>n. params_of GethPersonal n = params_of AsyncGethPersonal n)
     (operations AsyncGethPersonal)"
  unfolding operations_AsyncGethPersonal by code_simp

lemma sync_async_params_TxPool:
  "list_all (\<lambda>n. params_of GethTxPool n = params_of AsyncGethTxPool n)
     (operations AsyncGethTxPool)"
  unfolding operations_AsyncGethTxPool by code_simp

lemma async_covers_documented:
  "map (documented AsyncGethPersonal) (operations AsyncGethPersonal) =
     map (\<lambda>op. Some (''personal_'' @ op)) (documented_ops Personal)"
  "map (documented AsyncGethTxPool) (operations AsyncGethTxPool) =
     map (\<lambda>op. Some (''txpool_'' @ op)) (documented_ops Txpool)"
  unfolding operations_AsyncGethPersonal operations_AsyncGethTxPool by code_simp+

lemma list_accounts_facts:
  "documented GethPersonal ''list_accounts'' = Some ''personal_listAccounts''"
  "documented AsyncGethPersonal ''list_accounts'' = Some ''personal_listAccounts''"
  "params_of GethPersonal ''list_accounts'' = Some []"
  "params_of AsyncGethPersonal ''list_accounts'' = Some []"
  by code_simp+


lemma unlock_account_lookup:
  "lookup GethPersonal ''unlock_account'' =
     Some (Def False [req ''account'', req ''passphrase'', dflt ''duration'' PNone]
             ''_unlock_account'' [''account'', ''passphrase'', ''duration''])"
  "lookup AsyncGethPersonal ''unlock_account'' =
     Some (Def True [req ''account'', req ''passphrase'', dflt ''duration'' PNone]
             ''_unlock_account'' [''account'', ''passphrase'', ''duration''])"
  "lookup GethPersonal ''unlockAccount'' =
     Some (Def False [req ''account'', req ''passphrase'', dflt ''duration'' PNone]
             ''_unlockAccount'' [''account'', ''passphrase'', ''duration''])"
  by code_simp+

lemma signTypedData_lookup:
  "lookup GethPersonal ''signTypedData'' =
     Some (Def False [req ''message'', req ''account'', dflt ''password'' PNone]
             ''_signTypedData'' [''message'', ''account'', ''password''])"
  "lookup GethPersonal ''sign_typed_data'' =
     Some (Def False [req ''message'', req ''account'', req ''password'']
             ''_sign_typed_data'' [''message'', ''account'', ''password''])"
  by code_simp+

lemma unlock_account_facts:
  "params_of GethPersonal ''unlock_account'' =
     Some [req ''account'', req ''passphrase'', dflt ''duration'' PNone]"
  "params_of AsyncGethPersonal ''unlock_account'' =
     Some [req ''account'', req ''passphrase'', dflt ''duration'' PNone]"
  "params_of GethPersonal ''unlockAccount'' =
     Some [req ''account'', req ''passphrase'', dflt ''duration'' PNone]"
  "documented GethPersonal ''unlock_account'' = Some ''personal_unlockAccount''"
  "documented AsyncGethPersonal ''unlock_account'' = Some ''personal_unlockAccount''"
  "documented GethPersonal ''unlockAccount'' = Some ''personal_unlockAccount''"
  by code_simp+

lemma signTypedData_documented:
  "documented GethPersonal ''signTypedData'' = Some ''personal_signTypedData''"
  by code_simp

lemma admin_miner_present:
  "list_all (\<lambda>n. n \<in> set (operations GethAdmin)) (documented_ops Admin)"
  "list_all (\<lambda>n. n \<in> set (operations GethMiner)) (documented_ops Miner)"
  by (simp_all add: documented_ops_def operations_GethAdmin operations_GethMiner)

lemma namespace_admin_miner:
  "namespace c = Some Admin \<longleftrightarrow> c = GethAdmin" "namespace c = Some Miner \<longleftrightarrow> c = GethMiner"
  by (cases c; simp)+


subsection \<open>Argument binding\<close>

lemma bind_names: "bind ps args = Some env \<Longrightarrow> map fst env = map fst ps"
  by (induction ps args arbitrary: env rule: bind.induct) (auto split: option.splits)

lemma bind_values:
  "bind ps args = Some env \<Longrightarrow> list_all none_default ps \<Longrightarrow>
     map snd env = args @ replicate (length ps - length args) PNone"
  by (induction ps args arbitrary: env rule: bind.induct)
     (auto simp: none_default_def split: option.splits)

lemma bind_accepts_iff:
  "bind ps args \<noteq> None \<longleftrightarrow>
     length args \<le> length ps \<and> list_all (\<lambda>p. snd p \<noteq> None) (drop (length args) ps)"
  by (induction ps args rule: bind.induct) (auto split: option.splits)

lemma eval_names_entries:
  "\<forall>x \<in> set xs. map_of env (fst x) = Some (snd x) \<Longrightarrow>
     eval_names env (map fst xs) = Some (map snd xs)"
  by (induction xs) auto

lemma eval_names_env:
  "distinct (map fst env) \<Longrightarrow> eval_names env (map fst env) = Some (map snd env)"
  by (rule eval_names_entries) auto

subsection \<open>Performing an operation\<close>

text \<open>
  Performing an operation with accepted arguments is one dispatcher call relayed to the
  caller; with rejected arguments it is a \<open>TypeError\<close> in the unchanged state.
\<close>

lemma all_wired: "n \<in> set (operations c) \<Longrightarrow> wired c n"
  using wired_GethPersonal wired_AsyncGethPersonal wired_GethTxPool wired_AsyncGethTxPool
    wired_GethAdmin wired_GethMiner
  by (cases c)
     (simp_all only: list_all_iff operations_Module operations_BaseGethPersonal
        operations_BaseTxPool operations_Geth list.set empty_iff)

lemma relay_request:
  "(case request d m ps w of (r, w') \<Rightarrow> (map_sum id Plain r, w')) = relay d m ps w"
proof (cases "d m ps w")
  case (Pair r w')
  then show ?thesis
    by (cases r) (simp_all add: request_def relay_def)
qed

lemma method_call_sync:
  "\<not> class_is_async c \<Longrightarrow> global g = Some m \<Longrightarrow> method_call c g vs d w = relay d m vs w"
  by (simp add: method_call_def relay_request)

lemma method_call_async:
  "class_is_async c \<Longrightarrow> global g = Some m \<Longrightarrow>
     await (method_call c g vs d w) = request d m vs w"
  by (simp add: method_call_def)

lemma perform_attr:
  assumes "lookup c n = Some (Attr g)" and "\<not> class_is_async c" and "global g = Some m"
  shows "perform c n args d w = relay d m args w"
  using assms by (simp add: perform_def call_def method_call_sync)

lemma perform_def_accepted:
  assumes n: "lookup c n = Some (Def a ps t qs)"
    and a: "a = class_is_async c"
    and qs: "qs = map fst ps" "distinct qs"
    and dflt: "list_all none_default ps"
    and t: "lookup c t = Some (Attr g)" "global g = Some m"
    and env: "bind ps args = Some env"
  shows "perform c n args d w = relay d m (args @ replicate (length ps - length args) PNone) w"
proof -
  let ?vs = "args @ replicate (length ps - length args) PNone"
  have names: "map fst env = qs"
    using bind_names [OF env] qs by simp
  have "eval_names env qs = Some (map snd env)"
    using eval_names_env [of env] names qs by simp
  then have vs: "eval_names env qs = Some ?vs"
    using bind_values [OF env dflt] by simp
  have target: "call_target c env t qs d v = method_call c g ?vs d v" for v
    by (simp add: call_target_def t vs)
  show ?thesis
  proof (cases "class_is_async c")
    case True
    then have "perform c n args d w =
        (case await (call_target c env t qs d w) of (r, w') \<Rightarrow> (map_sum id Plain r, w'))"
      using n a env by (simp add: perform_def call_def)
    also have "\<dots> = relay d m ?vs w"
      using True t by (simp add: target method_call_async relay_request)
    finally show ?thesis .
  next
    case False
    then have "perform c n args d w = call_target c env t qs d w"
      using n a env by (simp add: perform_def call_def)
    also have "\<dots> = relay d m ?vs w"
      using False t by (simp add: target method_call_sync)
    finally show ?thesis .
  qed
qed

lemma perform_def_rejected:
  assumes "lookup c n = Some (Def a ps t qs)" and "bind ps args = None"
  shows "perform c n args d w = (Inl TypeError, w)"
  using assms by (simp add: perform_def call_def)

lemma perform_accepted:
  assumes op: "n \<in> set (operations c)" and acc: "accepts c n args"
  shows "\<exists>m. documented c n = Some m \<and>
           perform c n args d w = relay d m (args @ padding c n args) w"
proof -
  have w: "wired c n"
    using op by (rule all_wired)
  show ?thesis
  proof (cases "lookup c n")
    case None
    with w show ?thesis by (simp add: wired_def)
  next
    case (Some mem)
    show ?thesis
    proof (cases mem)
      case (Attr g)
      with Some w have sync: "\<not> class_is_async c"
        and g: "documented c n \<noteq> None" "global g = documented c n"
        by (auto simp: wired_def)
      then obtain m where m: "global g = Some m" "documented c n = Some m"
        by (cases "documented c n") simp_all
      have "padding c n args = []"
        using Some Attr by (simp add: padding_def params_of_def)
      then show ?thesis
        using perform_attr [OF _ sync m(1), of n args d w] Some Attr m(2) by simp
    next
      case (Flag b)
      with Some w show ?thesis by (simp add: wired_def)
    next
      case (Def a ps t qs)
      with Some w have rest: "a = class_is_async c" "qs = map fst ps" "distinct qs"
          "list_all none_default ps"
        and tgt: "case lookup c t of
                    Some (Attr g) \<Rightarrow>
                      map_of imported g = namespace c \<and>
                      documented c n \<noteq> None \<and> global g = documented c n
                  | _ \<Rightarrow> False"
        by (auto simp: wired_def)
      from tgt obtain g where t1: "lookup c t = Some (Attr g)"
        and g: "documented c n \<noteq> None" "global g = documented c n"
        by (auto split: option.splits member.splits)
      from g obtain m where t2: "global g = Some m" and m: "documented c n = Some m"
        by (cases "documented c n") simp_all
      note t = t1 t2
      from acc Some Def obtain env where env: "bind ps args = Some env"
        by (auto simp: accepts_def params_of_def)
      have "padding c n args = replicate (length ps - length args) PNone"
        using Some Def by (simp add: padding_def params_of_def)
      then show ?thesis
        using perform_def_accepted [OF _ rest t env, of n d w] Some Def m by simp
    qed
  qed
qed

lemma perform_rejected:
  assumes "\<not> accepts c n args"
  shows "perform c n args d w = (Inl TypeError, w)"
proof -
  from assms obtain a ps t qs where "lookup c n = Some (Def a ps t qs)" "bind ps args = None"
    by (auto simp: accepts_def params_of_def split: option.splits member.splits)
  then show ?thesis by (rule perform_def_rejected)
qed

lemma relay_recording:
  "relay (recording d) m ps (log, w) =
     (case d m ps w of (r, w') \<Rightarrow> (map_sum Raised Plain r, (log @ [(m, ps)], w')))"
  by (simp add: relay_def recording_def split: prod.splits)

lemma dispatched_accepted:
  assumes "n \<in> set (operations c)" and "accepts c n args" and "documented c n = Some m"
  shows "dispatched c n args d w = [(m, args @ padding c n args)]"
  using perform_accepted [OF assms(1,2), of "recording d" "([], w)"] assms(3)
  by (simp add: dispatched_def relay_recording split: prod.splits)

lemma dispatched_rejected:
  assumes "\<not> accepts c n args"
  shows "dispatched c n args d w = []"
  using perform_rejected [OF assms, of "recording d" "([], w)"]
  by (simp add: dispatched_def)

lemma wired_facts:
  assumes "n \<in> set (operations c)"
  shows "rpc_of c n = documented c n" and "documented c n \<noteq> None"
    and "origin c n = namespace c" and "is_async_def c n = class_is_async c"
  using all_wired [OF assms]
  by (auto simp: wired_def rpc_of_def origin_def bound_to_def is_async_def_def
           split: option.splits member.splits)

lemma documented_norm:
  "norm_name a = norm_name n \<Longrightarrow> documented c a = documented c n"
  by (cases "namespace c") (simp_all add: documented_def json_rpc_method_def)

lemma perform_cong:
  assumes "n \<in> set (operations c)" and "n' \<in> set (operations c')"
    and "documented c n = documented c' n'"
    and "accepts c n args = accepts c' n' args"
    and "padding c n args = padding c' n' args"
  shows "perform c n args d w = perform c' n' args d w"
proof (cases "accepts c n args")
  case True
  then have "accepts c' n' args"
    using assms(4) by simp
  with True assms(3,5) perform_accepted [OF assms(1), of args d w]
    perform_accepted [OF assms(2), of args d w]
  show ?thesis by auto
next
  case False
  then have "\<not> accepts c' n' args"
    using assms(4) by simp
  with False show ?thesis
    by (simp add: perform_rejected)
qed

lemma same_params:
  "params_of c n = params_of c' n' \<Longrightarrow>
     accepts c n args = accepts c' n' args \<and> padding c n args = padding c' n' args"
  by (simp add: accepts_def padding_def)


lemma documented_same_namespace:
  "namespace c = namespace c' \<Longrightarrow> documented c n = documented c' n"
  by (simp add: documented_def)

lemma sync_async_perform:
  assumes pair: "(s, a) = (GethPersonal, AsyncGethPersonal) \<or> (s, a) = (GethTxPool, AsyncGethTxPool)"
    and ops: "n \<in> set (operations s)" "n \<in> set (operations a)"
  shows "perform s n args d w = perform a n args d w"
proof -
  have "namespace s = namespace a"
    using pair by auto
  then have doc: "documented s n = documented a n"
    by (rule documented_same_namespace)
  have "params_of s n = params_of a n"
    using pair ops(2) sync_async_params_Personal sync_async_params_TxPool
    by (auto simp: list_all_iff)
  then have "accepts s n args = accepts a n args" "padding s n args = padding a n args"
    using same_params by blast+
  with ops doc show ?thesis
    by (intro perform_cong)
qed

lemma list_accounts_perform:
  "perform GethPersonal ''list_accounts'' [] d w = relay d ''personal_listAccounts'' [] w"
  "perform AsyncGethPersonal ''list_accounts'' [] d w = relay d ''personal_listAccounts'' [] w"
proof -
  have "''list_accounts'' \<in> set (operations GethPersonal)"
    by (simp add: operations_GethPersonal)
  moreover have "accepts GethPersonal ''list_accounts'' []"
    by (simp add: accepts_def list_accounts_facts)
  ultimately show "perform GethPersonal ''list_accounts'' [] d w =
      relay d ''personal_listAccounts'' [] w"
    using perform_accepted [of "''list_accounts''" GethPersonal "[]" d w]
    by (simp add: list_accounts_facts padding_def)
  have "''list_accounts'' \<in> set (operations AsyncGethPersonal)"
    by (simp add: operations_AsyncGethPersonal)
  moreover have "accepts AsyncGethPersonal ''list_accounts'' []"
    by (simp add: accepts_def list_accounts_facts)
  ultimately show "perform AsyncGethPersonal ''list_accounts'' [] d w =
      relay d ''personal_listAccounts'' [] w"
    using perform_accepted [of "''list_accounts''" AsyncGethPersonal "[]" d w]
    by (simp add: list_accounts_facts padding_def)
qed

lemma plain_result:
  "(case x of (r, w') \<Rightarrow> (map_sum id Plain r, w')) = (Inr (Plain v), v') \<Longrightarrow> x = (Inr v, v')"
  by (cases x; cases "fst x") auto


subsection \<open>Aliases and naming\<close>

lemma alias_of_iff: "alias_of c a n \<longleftrightarrow> (a, n) \<in> set (alias_pairs c)"
  by (auto simp: alias_of_def alias_pairs_def)



lemma accepts_signTypedData:
  "accepts GethPersonal ''signTypedData'' args \<longleftrightarrow> length args = 2 \<or> length args = 3"
  unfolding accepts_def params_signTypedData option.case bind_accepts_iff
  by (auto simp: le_Suc_eq numeral_3_eq_3 numeral_2_eq_2)

lemma accepts_sign_typed_data:
  "accepts GethPersonal ''sign_typed_data'' args \<longleftrightarrow> length args = 3"
  unfolding accepts_def params_sign_typed_data option.case bind_accepts_iff
  by (auto simp: le_Suc_eq numeral_3_eq_3)



lemma filter_eq_mem: "filter P xs = ys \<Longrightarrow> x \<in> set xs \<Longrightarrow> P x \<longleftrightarrow> x \<in> set ys"
  by auto

lemma camel_alias_iff:
  assumes "n \<in> set (operations c)"
  shows "has_camel_alias c n \<longleftrightarrow>
           \<not> (c = GethPersonal \<and> n = ''list_wallets'') \<and> (c = AsyncGethPersonal \<longrightarrow> n = ''sign'')"
proof (cases c)
  case GethPersonal
  with filter_eq_mem [OF no_camel_GethPersonal, of n] assms show ?thesis by auto
next
  case AsyncGethPersonal
  with filter_eq_mem [OF camel_AsyncGethPersonal, of n] assms show ?thesis by auto
next
  case GethTxPool
  with filter_eq_mem [OF no_camel_GethTxPool, of n] assms show ?thesis by auto
next
  case AsyncGethTxPool
  with filter_eq_mem [OF no_camel_AsyncGethTxPool, of n] assms show ?thesis by auto
next
  case GethAdmin
  with filter_eq_mem [OF no_camel_GethAdmin, of n] assms show ?thesis by auto
next
  case GethMiner
  with filter_eq_mem [OF no_camel_GethMiner, of n] assms show ?thesis by auto
qed (use assms in \<open>simp_all add: operations_Module operations_BaseGethPersonal
       operations_BaseTxPool operations_Geth\<close>)

lemma alias_same_rpc:
  assumes "alias_of c a n"
  shows "rpc_of c a = rpc_of c n \<and> rpc_of c n \<noteq> None"
proof -
  from assms have ops: "a \<in> set (operations c)" "n \<in> set (operations c)"
    and nm: "norm_name a = norm_name n"
    by (simp_all add: alias_of_def)
  show ?thesis
    using wired_facts(1,2) [OF ops(1)] wired_facts(1,2) [OF ops(2)] documented_norm [OF nm, of c]
    by simp
qed

subsection \<open>One dispatcher call per operation\<close>

text \<open>
  Claim C1, as stated: performing any exposed operation with arguments \<open>args\<close> issues
  exactly one dispatcher call, with the documented method string and parameters equal to
  \<open>args\<close>. As amended: performing (calling and, on a non-blocking class, awaiting) any
  exposed operation of any class with positional arguments \<open>args\<close> that its signature
  accepts issues exactly one dispatcher call, with the documented JSON-RPC method string
  and with parameters \<open>args\<close>, unchanged and in order, followed by \<open>None\<close> for each
  trailing optional parameter the call omits.
\<close>

theorem one_dispatch_in_order:
  assumes "n \<in> set (operations c)" and "accepts c n args"
  shows "\<exists>m. documented c n = Some m \<and>
           dispatched c n args d w = [(m, args @ padding c n args)]"
proof -
  from wired_facts(2) [OF assms(1)] obtain m where "documented c n = Some m"
    by auto
  with assms show ?thesis
    by (simp add: dispatched_accepted)
qed

theorem one_dispatch_in_order_witness:
  "''send_transaction'' \<in> set (operations GethPersonal) \<and>
   accepts GethPersonal ''send_transaction'' [PRef 0, PStr ''secret''] \<and>
   documented GethPersonal ''send_transaction'' = Some ''personal_sendTransaction'' \<and>
   dispatched GethPersonal ''send_transaction'' [PRef 0, PStr ''secret''] always_true () =
     [(''personal_sendTransaction'', [PRef 0, PStr ''secret''])]"
proof -
  have op: "''send_transaction'' \<in> set (operations GethPersonal)"
    by (simp add: operations_GethPersonal)
  have acc: "accepts GethPersonal ''send_transaction'' [PRef 0, PStr ''secret'']"
    by code_simp
  have doc: "documented GethPersonal ''send_transaction'' = Some ''personal_sendTransaction''"
    by code_simp
  have pad: "padding GethPersonal ''send_transaction'' [PRef 0, PStr ''secret''] = []"
    by code_simp
  show ?thesis
    using one_dispatch_in_order [OF op acc, of always_true "()"] op acc doc pad by simp
qed

text \<open>
  The claim as stated fails where a default is filled in: \<open>unlock_account\<close> called with
  two arguments dispatches three parameters.
\<close>

theorem one_dispatch_counterexample:
  "''unlock_account'' \<in> set (operations GethPersonal) \<and>
   documented GethPersonal ''unlock_account'' = Some ''personal_unlockAccount'' \<and>
   dispatched GethPersonal ''unlock_account'' [PStr ''0xA'', PStr ''secret''] always_true () =
     [(''personal_unlockAccount'', [PStr ''0xA'', PStr ''secret'', PNone])] \<and>
   dispatched GethPersonal ''unlock_account'' [PStr ''0xA'', PStr ''secret''] always_true () \<noteq>
     [(''personal_unlockAccount'', [PStr ''0xA'', PStr ''secret''])]"
proof -
  have op: "''unlock_account'' \<in> set (operations GethPersonal)"
    by (simp add: operations_GethPersonal)
  have acc: "accepts GethPersonal ''unlock_account'' [PStr ''0xA'', PStr ''secret'']"
    by code_simp
  have doc: "documented GethPersonal ''unlock_account'' = Some ''personal_unlockAccount''"
    by code_simp
  have pad: "padding GethPersonal ''unlock_account'' [PStr ''0xA'', PStr ''secret''] = [PNone]"
    by code_simp
  show ?thesis
    using dispatched_accepted [OF op acc doc, of always_true "()"] op doc pad by simp
qed

subsection \<open>Deprecated aliases\<close>




subsection \<open>Which operations have a camelCase name\<close>

text \<open>
  Claim C3, as stated: every namespace class exposes a camelCase name for each of its
  snake_case operations, bound to the same implementation; in particular GethPersonal and
  AsyncGethPersonal do. As amended: an operation of a class has a camelCase name in that
  class exactly when it is not \<open>list_wallets\<close> of GethPersonal and not an operation of
  AsyncGethPersonal other than the single word \<open>sign\<close> (so GethAdmin, GethMiner and both
  TxPool classes have one for every operation, GethPersonal for every operation but
  \<open>list_wallets\<close>, and AsyncGethPersonal has no deprecated alias at all); and every alias
  ends in an object that requests the same JSON-RPC method as its snake_case operation.
\<close>

theorem camel_alias_characterised:
  assumes "n \<in> set (operations c)"
  shows "(has_camel_alias c n \<longleftrightarrow>
            \<not> (c = GethPersonal \<and> n = ''list_wallets'') \<and>
            (c = AsyncGethPersonal \<longrightarrow> n = ''sign'')) \<and>
         (\<forall>a. alias_of c a n \<longrightarrow> rpc_of c a = rpc_of c n \<and> rpc_of c n \<noteq> None)"
  using camel_alias_iff [OF assms] alias_same_rpc by blast

theorem camel_alias_characterised_witness:
  "''set_gas_price'' \<in> set (operations GethMiner) \<and>
   has_camel_alias GethMiner ''set_gas_price'' \<and>
   alias_of GethMiner ''setGasPrice'' ''set_gas_price'' \<and>
   rpc_of GethMiner ''setGasPrice'' = rpc_of GethMiner ''set_gas_price'' \<and>
   rpc_of GethMiner ''set_gas_price'' \<noteq> None"
proof -
  have op: "''set_gas_price'' \<in> set (operations GethMiner)"
    by (simp add: operations_GethMiner)
  have al: "alias_of GethMiner ''setGasPrice'' ''set_gas_price''"
    by (simp add: alias_of_iff alias_pairs_GethMiner)
  show ?thesis
    using camel_alias_characterised [OF op] op al by simp
qed

text \<open>
  The claim as stated fails for \<open>list_wallets\<close> of GethPersonal and for \<open>ec_recover\<close> of
  AsyncGethPersonal: neither class has a camelCase name for it.
\<close>

theorem camel_alias_counterexample:
  "''list_wallets'' \<in> set (operations GethPersonal) \<and>
   \<not> has_camel_alias GethPersonal ''list_wallets'' \<and>
   ''ec_recover'' \<in> set (operations AsyncGethPersonal) \<and>
   \<not> has_camel_alias AsyncGethPersonal ''ec_recover''"
proof -
  have op1: "''list_wallets'' \<in> set (operations GethPersonal)"
    by (simp add: operations_GethPersonal)
  have op2: "''ec_recover'' \<in> set (operations AsyncGethPersonal)"
    by (simp add: operations_AsyncGethPersonal)
  show ?thesis
    using camel_alias_iff [OF op1] camel_alias_iff [OF op2] op1 op2 by simp
qed

subsection \<open>Errors\<close>



subsection \<open>Blocking calls and awaited calls\<close>

text \<open>
  Claim C5: for every operation that exists both on the blocking and on the non-blocking
  class of a namespace (GethPersonal and AsyncGethPersonal, GethTxPool and
  AsyncGethTxPool), for every argument list, dispatcher and state, what the blocking call
  returns is what the awaited non-blocking call resolves to, errors and final state
  included; in particular, when the dispatcher returns \<open>v\<close> for \<open>personal_listAccounts\<close>,
  \<open>list_accounts()\<close> returns \<open>v\<close> and the awaited non-blocking \<open>list_accounts()\<close>
  resolves to \<open>v\<close>. The operations of the non-blocking classes are operations of the
  blocking ones, and they are all the documented operations of the two namespaces.
\<close>

theorem sync_and_async_agree:
  fixes d :: "('e, 'w) dispatcher"
  assumes "(s, a) = (GethPersonal, AsyncGethPersonal) \<or> (s, a) = (GethTxPool, AsyncGethTxPool)"
    and "n \<in> set (operations s)" and "n \<in> set (operations a)"
  shows "call s n args d w =
           (case await (call a n args d w) of (r, w') \<Rightarrow> (map_sum id Plain r, w')) \<and>
         (\<forall>v w'. d ''personal_listAccounts'' [] w = (Inr v, w') \<longrightarrow>
            call GethPersonal ''list_accounts'' [] d w = (Inr (Plain v), w') \<and>
            await (call AsyncGethPersonal ''list_accounts'' [] d w) = (Inr v, w')) \<and>
         set (operations AsyncGethPersonal) \<subseteq> set (operations GethPersonal) \<and>
         map (documented AsyncGethPersonal) (operations AsyncGethPersonal) =
           map (\<lambda>op. Some (''personal_'' @ op)) (documented_ops Personal) \<and>
         set (operations AsyncGethTxPool) \<subseteq> set (operations GethTxPool) \<and>
         map (documented AsyncGethTxPool) (operations AsyncGethTxPool) =
           map (\<lambda>op. Some (''txpool_'' @ op)) (documented_ops Txpool)"
proof -
  have modes: "\<not> class_is_async s" "class_is_async a"
    using assms(1) class_is_async_values by auto
  have general: "call s n args d w =
      (case await (call a n args d w) of (r, w') \<Rightarrow> (map_sum id Plain r, w'))"
    using sync_async_perform [OF assms, of args d w] modes by (simp add: perform_def)
  have particular: "call GethPersonal ''list_accounts'' [] d w = (Inr (Plain v), w') \<and>
      await (call AsyncGethPersonal ''list_accounts'' [] d w) = (Inr v, w')"
    if ret: "d ''personal_listAccounts'' [] w = (Inr v, w')" for v w'
  proof
    have r: "relay d ''personal_listAccounts'' [] w = (Inr (Plain v), w')"
      using ret by (simp add: relay_def)
    show "call GethPersonal ''list_accounts'' [] d w = (Inr (Plain v), w')"
      using list_accounts_perform(1) [of d w] r class_is_async_values(1)
      by (simp add: perform_def)
    have "(case await (call AsyncGethPersonal ''list_accounts'' [] d w) of
             (r, w') \<Rightarrow> (map_sum id Plain r, w')) = (Inr (Plain v :: ('e, 'w) pyobj), w')"
      using list_accounts_perform(2) [of d w] r class_is_async_values(2)
      by (simp add: perform_def)
    then show "await (call AsyncGethPersonal ''list_accounts'' [] d w) = (Inr v, w')"
      by (rule plain_result)
  qed
  have subsets: "set (operations AsyncGethPersonal) \<subseteq> set (operations GethPersonal)"
    "set (operations AsyncGethTxPool) \<subseteq> set (operations GethTxPool)"
    by (simp_all add: operations_AsyncGethPersonal operations_GethPersonal
          operations_AsyncGethTxPool operations_GethTxPool)
  show ?thesis
    using general particular subsets async_covers_documented by blast
qed

theorem sync_and_async_agree_witness:
  "''status'' \<in> set (operations GethTxPool) \<and> ''status'' \<in> set (operations AsyncGethTxPool) \<and>
   call GethTxPool ''status'' [] always_true () =
     (case await (call AsyncGethTxPool ''status'' [] always_true ()) of
        (r, w') \<Rightarrow> (map_sum id Plain r, w')) \<and>
   call GethPersonal ''list_accounts'' [] always_true () = (Inr (Plain (PBool True)), ()) \<and>
   await (call AsyncGethPersonal ''list_accounts'' [] always_true ()) = (Inr (PBool True), ())"
proof -
  have pair: "(GethTxPool, AsyncGethTxPool) = (GethPersonal, AsyncGethPersonal) \<or>
      (GethTxPool, AsyncGethTxPool) = (GethTxPool, AsyncGethTxPool)"
    by simp
  have op1: "''status'' \<in> set (operations GethTxPool)"
    by (simp add: operations_GethTxPool)
  have op2: "''status'' \<in> set (operations AsyncGethTxPool)"
    by (simp add: operations_AsyncGethTxPool)
  have ret: "always_true ''personal_listAccounts'' [] () = (Inr (PBool True), ())"
    by (simp add: always_true_def)
  note inst = sync_and_async_agree [OF pair op1 op2, of "[]" always_true "()"]
  from inst have "call GethTxPool ''status'' [] always_true () =
     (case await (call AsyncGethTxPool ''status'' [] always_true ()) of
        (r, w') \<Rightarrow> (map_sum id Plain r, w'))"
    by (rule conjunct1)
  moreover from inst ret
  have "call GethPersonal ''list_accounts'' [] always_true () = (Inr (Plain (PBool True)), ()) \<and>
     await (call AsyncGethPersonal ''list_accounts'' [] always_true ()) = (Inr (PBool True), ())"
    by blast
  ultimately show ?thesis
    using op1 op2 by blast
qed

subsection \<open>Default parameters\<close>

text \<open>
  Claim C6: \<open>unlock_account(account, passphrase)\<close> without a duration forwards
  \<open>None\<close> as third argument and so dispatches \<open>personal_unlockAccount\<close> with the three
  parameters \<open>account\<close>, \<open>passphrase\<close>, \<open>None\<close>; so do the non-blocking variant and
  the deprecated alias \<open>unlockAccount\<close>.
\<close>

theorem unlock_account_default_duration:
  "forwarded GethPersonal ''unlock_account'' [account, passphrase] =
     Some (''_unlock_account'', [account, passphrase, PNone]) \<and>
   forwarded AsyncGethPersonal ''unlock_account'' [account, passphrase] =
     Some (''_unlock_account'', [account, passphrase, PNone]) \<and>
   forwarded GethPersonal ''unlockAccount'' [account, passphrase] =
     Some (''_unlockAccount'', [account, passphrase, PNone]) \<and>
   dispatched GethPersonal ''unlock_account'' [account, passphrase] d w =
     [(''personal_unlockAccount'', [account, passphrase, PNone])] \<and>
   dispatched AsyncGethPersonal ''unlock_account'' [account, passphrase] d w =
     [(''personal_unlockAccount'', [account, passphrase, PNone])] \<and>
   dispatched GethPersonal ''unlockAccount'' [account, passphrase] d w =
     [(''personal_unlockAccount'', [account, passphrase, PNone])]"
proof -
  have ops: "''unlock_account'' \<in> set (operations GethPersonal)"
    "''unlock_account'' \<in> set (operations AsyncGethPersonal)"
    "''unlockAccount'' \<in> set (operations GethPersonal)"
    by (simp_all add: operations_GethPersonal operations_AsyncGethPersonal)
  have acc: "accepts GethPersonal ''unlock_account'' [account, passphrase]"
    "accepts AsyncGethPersonal ''unlock_account'' [account, passphrase]"
    "accepts GethPersonal ''unlockAccount'' [account, passphrase]"
    by (simp_all add: accepts_def unlock_account_facts)
  have pad: "padding GethPersonal ''unlock_account'' [account, passphrase] = [PNone]"
    "padding AsyncGethPersonal ''unlock_account'' [account, passphrase] = [PNone]"
    "padding GethPersonal ''unlockAccount'' [account, passphrase] = [PNone]"
    by (simp_all add: padding_def unlock_account_facts)
  show ?thesis
    using dispatched_accepted [OF ops(1) acc(1) unlock_account_facts(4), of d w]
      dispatched_accepted [OF ops(2) acc(2) unlock_account_facts(5), of d w]
      dispatched_accepted [OF ops(3) acc(3) unlock_account_facts(6), of d w]
    by (simp add: pad forwarded_def unlock_account_lookup)
qed

subsection \<open>Admin and Miner are blocking only\<close>

text \<open>
  Claim C7: every documented admin operation is an operation of GethAdmin and every
  documented miner operation one of GethMiner, each bound to an object imported from the
  namespace's module, none written with \<open>async def\<close>, on a class that is not
  non-blocking; no operation of any class that ends in an object of the admin or miner
  module is on a non-blocking class or written with \<open>async def\<close>; and Personal and
  TxPool each have a blocking class, whose operations are all plain methods, and a
  non-blocking class, whose operations are all \<open>async def\<close>.
\<close>

theorem admin_and_miner_sync_only:
  "(\<forall>n \<in> set (documented_ops Admin).
      n \<in> set (operations GethAdmin) \<and> origin GethAdmin n = Some Admin \<and>
      \<not> is_async_def GethAdmin n) \<and>
   \<not> class_is_async GethAdmin \<and>
   (\<forall>n \<in> set (documented_ops Miner).
      n \<in> set (operations GethMiner) \<and> origin GethMiner n = Some Miner \<and>
      \<not> is_async_def GethMiner n) \<and>
   \<not> class_is_async GethMiner \<and>
   (\<forall>c n. n \<in> set (operations c) \<and> (origin c n = Some Admin \<or> origin c n = Some Miner) \<longrightarrow>
      \<not> class_is_async c \<and> \<not> is_async_def c n) \<and>
   (\<forall>n \<in> set (operations GethPersonal).
      origin GethPersonal n = Some Personal \<and> \<not> is_async_def GethPersonal n) \<and>
   \<not> class_is_async GethPersonal \<and>
   (\<forall>n \<in> set (operations AsyncGethPersonal).
      origin AsyncGethPersonal n = Some Personal \<and> is_async_def AsyncGethPersonal n) \<and>
   class_is_async AsyncGethPersonal \<and>
   (\<forall>n \<in> set (operations GethTxPool).
      origin GethTxPool n = Some Txpool \<and> \<not> is_async_def GethTxPool n) \<and>
   \<not> class_is_async GethTxPool \<and>
   (\<forall>n \<in> set (operations AsyncGethTxPool).
      origin AsyncGethTxPool n = Some Txpool \<and> is_async_def AsyncGethTxPool n) \<and>
   class_is_async AsyncGethTxPool"
proof -
  have per_class: "origin c n = namespace c \<and> is_async_def c n = class_is_async c"
    if "n \<in> set (operations c)" for c n
    using wired_facts(3,4) [OF that] by simp
  have admin: "\<forall>n \<in> set (documented_ops Admin).
      n \<in> set (operations GethAdmin) \<and> origin GethAdmin n = Some Admin \<and>
      \<not> is_async_def GethAdmin n"
    using admin_miner_present(1) per_class [of _ GethAdmin] class_is_async_values
    by (auto simp: list_all_iff)
  have miner: "\<forall>n \<in> set (documented_ops Miner).
      n \<in> set (operations GethMiner) \<and> origin GethMiner n = Some Miner \<and>
      \<not> is_async_def GethMiner n"
    using admin_miner_present(2) per_class [of _ GethMiner] class_is_async_values
    by (auto simp: list_all_iff)
  have none_async: "\<forall>c n. n \<in> set (operations c) \<and>
      (origin c n = Some Admin \<or> origin c n = Some Miner) \<longrightarrow>
      \<not> class_is_async c \<and> \<not> is_async_def c n"
  proof (intro allI impI)
    fix c n
    assume h: "n \<in> set (operations c) \<and> (origin c n = Some Admin \<or> origin c n = Some Miner)"
    then have "namespace c = Some Admin \<or> namespace c = Some Miner"
      using per_class [of n c] by auto
    then have "c = GethAdmin \<or> c = GethMiner"
      by (simp add: namespace_admin_miner)
    then show "\<not> class_is_async c \<and> \<not> is_async_def c n"
      using h per_class [of n c] class_is_async_values by auto
  qed
  have both: "\<forall>n \<in> set (operations GethPersonal).
      origin GethPersonal n = Some Personal \<and> \<not> is_async_def GethPersonal n"
    "\<forall>n \<in> set (operations AsyncGethPersonal).
      origin AsyncGethPersonal n = Some Personal \<and> is_async_def AsyncGethPersonal n"
    "\<forall>n \<in> set (operations GethTxPool).
      origin GethTxPool n = Some Txpool \<and> \<not> is_async_def GethTxPool n"
    "\<forall>n \<in> set (operations AsyncGethTxPool).
      origin AsyncGethTxPool n = Some Txpool \<and> is_async_def AsyncGethTxPool n"
    using per_class class_is_async_values by auto
  show ?thesis
    using admin miner none_async both class_is_async_values by blast
qed

theorem admin_and_miner_sync_only_witness:
  "''startRPC'' \<in> set (documented_ops Admin) \<and>
   ''startRPC'' \<in> set (operations GethAdmin) \<and> origin GethAdmin ''startRPC'' = Some Admin \<and>
   \<not> is_async_def GethAdmin ''startRPC'' \<and> \<not> class_is_async GethAdmin \<and>
   ''status'' \<in> set (operations AsyncGethTxPool) \<and>
   origin AsyncGethTxPool ''status'' = Some Txpool \<and> is_async_def AsyncGethTxPool ''status''"
proof -
  have a: "''startRPC'' \<in> set (documented_ops Admin)"
    by (simp add: documented_ops_def)
  have b: "''status'' \<in> set (operations AsyncGethTxPool)"
    by (simp add: operations_AsyncGethTxPool)
  show ?thesis
    using admin_and_miner_sync_only a b by blast
qed

subsection \<open>No mutation\<close>



subsection \<open>The default of signTypedData\<close>

text \<open>
  Claim C9: the alias \<open>signTypedData\<close> of GethPersonal declares \<open>password = None\<close>, so
  \<open>signTypedData(message, account)\<close> is accepted and dispatches
  \<open>personal_signTypedData\<close> with \<open>message\<close>, \<open>account\<close>, \<open>None\<close>; the canonical
  \<open>sign_typed_data\<close> declares no default and rejects the same two arguments with
  \<open>TypeError\<close>, before any dispatch.
\<close>

theorem signTypedData_password_defaults:
  "params_of GethPersonal ''signTypedData'' =
     Some [req ''message'', req ''account'', dflt ''password'' PNone] \<and>
   params_of GethPersonal ''sign_typed_data'' =
     Some [req ''message'', req ''account'', req ''password''] \<and>
   forwarded GethPersonal ''signTypedData'' [message, account] =
     Some (''_signTypedData'', [message, account, PNone]) \<and>
   forwarded GethPersonal ''sign_typed_data'' [message, account] = None \<and>
   accepts GethPersonal ''signTypedData'' [message, account] \<and>
   perform GethPersonal ''signTypedData'' [message, account] d w =
     relay d ''personal_signTypedData'' [message, account, PNone] w \<and>
   dispatched GethPersonal ''signTypedData'' [message, account] d w =
     [(''personal_signTypedData'', [message, account, PNone])] \<and>
   \<not> accepts GethPersonal ''sign_typed_data'' [message, account] \<and>
   perform GethPersonal ''sign_typed_data'' [message, account] d w = (Inl TypeError, w) \<and>
   dispatched GethPersonal ''sign_typed_data'' [message, account] d w = []"
proof -
  have op: "''signTypedData'' \<in> set (operations GethPersonal)"
    by (simp add: operations_GethPersonal)
  have acc: "accepts GethPersonal ''signTypedData'' [message, account]"
    by (simp add: accepts_signTypedData)
  have rej: "\<not> accepts GethPersonal ''sign_typed_data'' [message, account]"
    by (simp add: accepts_sign_typed_data)
  have pad: "padding GethPersonal ''signTypedData'' [message, account] = [PNone]"
    by (simp add: padding_def params_signTypedData)
  have "perform GethPersonal ''signTypedData'' [message, account] d w =
      relay d ''personal_signTypedData'' [message, account, PNone] w"
    using perform_accepted [OF op acc, of d w] by (simp add: signTypedData_documented pad)
  moreover have "dispatched GethPersonal ''signTypedData'' [message, account] d w =
      [(''personal_signTypedData'', [message, account, PNone])]"
    using dispatched_accepted [OF op acc signTypedData_documented, of d w] by (simp add: pad)
  ultimately show ?thesis
    using acc rej
    by (simp add: perform_rejected dispatched_rejected params_signTypedData
          params_sign_typed_data forwarded_def signTypedData_lookup)
qed

subsection \<open>The Geth aggregate\<close>

text \<open>
  Claim C10: the class \<open>Geth\<close> declares exactly two attributes, \<open>personal\<close> of class
  GethPersonal and \<open>admin\<close> of class GethAdmin, and nothing else; no attribute \<open>miner\<close>
  or \<open>txpool\<close> is declared on it or found by attribute lookup in this file.
\<close>

theorem Geth_declares_personal_and_admin:
  "annotations Geth = [(''personal'', GethPersonal), (''admin'', GethAdmin)] \<and>
   map (namespace \<circ> snd) (annotations Geth) = [Some Personal, Some Admin] \<and>
   body Geth = [] \<and> operations Geth = [] \<and>
   map_of (annotations Geth) ''miner'' = None \<and> map_of (annotations Geth) ''txpool'' = None \<and>
   lookup Geth ''miner'' = None \<and> lookup Geth ''txpool'' = None"
  by (simp add: operations_Geth lookup_def Module_body_def)

end
